theory Spec2Isabelle
  imports Main "HOL-Library.Multiset"
begin

section \<open>The update service of qri: jobs, commands and their execution\<close>

text \<open>
  The development embeds package \<open>update\<close>: service start, the job runner and the
  translation of jobs into operating-system commands. Go values are modelled as follows: strings are
  \<open>string\<close>, a pointer that the code tests against \<open>nil\<close> or dereferences on data
  it did not build itself is an \<open>option\<close>, an \<open>error\<close> result is \<open>error option\<close> with
  \<open>None\<close> for \<open>nil\<close>, and a run-time panic is the left summand of a sum. The pointer
  arguments \<open>job\<close> and \<open>ds\<close> are taken by value: a \<open>nil\<close> job or
  dataset is outside the model.
\<close>

subsection \<open>Errors\<close>

text \<open>
  Every error the package builds comes from \<open>fmt.Errorf\<close> and is known by its text
  only; errors of the child process, of the parser and of validation are of the same kind.
\<close>

datatype error = Errorf string

datatype panic = NilPointerDereference

subsection \<open>Types of package cron\<close>

text \<open>
  Modelled from the spec: the declarations of \<open>cron.JobType\<close>, \<open>cron.Job\<close>,
  \<open>cron.DatasetOptions\<close> and \<open>cron.ShellScriptOptions\<close> are not among the sources.
  The fields are those the spec's data model and the store schema list; the job type is a
  string-like value (the runner prints it with the verb \<open>%s\<close>) whose two known values
  carry the schema's names.
\<close>

type_synonym JobType = string

definition JTDataset :: JobType where
  "JTDataset = ''dataset''"

definition JTShellScript :: JobType where
  "JTShellScript = ''shell''"

type_synonym Time = int

text \<open>
  The value of \<open>iso8601.ParseRepeatingInterval\<close>: the package only stores it in the
  job, so that its inner structure plays no role here.
\<close>

datatype RepeatingInterval = RepeatingInterval (Repetitions: int) (Interval: string)

record DatasetOptions =
  Title :: string
  Message :: string
  BodyPath :: string
  FilePaths :: "string list"
  Recall :: string
  Publish :: bool
  Strict :: bool
  Force :: bool
  ConvertFormatToPrev :: bool
  ShouldRender :: bool
  Config :: "(string \<times> string) list"
  Secrets :: "(string \<times> string) list"

datatype ShellScriptOptions = ShellScriptOptions

text \<open>
  The interface value \<open>cron.Options\<close>: either \<open>nil\<close> or one of the two option
  structures. The type assertion \<open>job.Options.(*cron.DatasetOptions)\<close> succeeds on
  \<open>OptDataset\<close> only.
\<close>

datatype Options =
    OptNil
  | OptDataset DatasetOptions
  | OptShellScript ShellScriptOptions

subsection \<open>Types of other packages\<close>

text \<open>
  \<open>config.Update\<close>, \<open>dataset.Dataset\<close> with its \<open>Meta\<close> and \<open>Commit\<close> components
  (both pointers), \<open>ioes.IOStreams\<close> and \<open>exec.Cmd\<close>, each with the fields the
  package reads or writes.
\<close>

record Update =
  Type :: string
  Address :: string

record Meta =
  AccrualPeriodicity :: string

record Commit =
  Timestamp :: Time

record Dataset =
  Peername :: string
  Name :: string
  Meta :: "Meta option"
  Commit :: "Commit option"

record Job =
  Name :: string
  Alias :: string
  Type :: JobType
  Periodicity :: RepeatingInterval
  PrevRunStart :: Time
  RunNumber :: int
  RunStart :: Time
  RunStop :: Time
  RunError :: string
  LogFilePath :: string
  Options :: Options
  RepoPath :: string

text \<open>
  Streams. A writer is a sink of the caller, the capture buffer allocated by the runner,
  or the fan-out built by \<open>io.MultiWriter\<close>.
\<close>

datatype reader = Source string

datatype writer =
    Sink string
  | BytesBuffer
  | MultiWriter "writer list"

record IOStreams =
  In :: reader
  Out :: writer
  ErrOut :: writer

definition NewIOStreams :: "reader \<Rightarrow> writer \<Rightarrow> writer \<Rightarrow> IOStreams" where
  "NewIOStreams i out errOut = \<lparr>In = i, Out = out, ErrOut = errOut\<rparr>"

text \<open>
  \<open>exec.Cmd\<close>: \<open>Cmd_Args\<close> holds the program name followed by the arguments,
  \<open>Cmd_Env = None\<close> is the \<open>nil\<close> environment, under which the child runs with the
  environment of the calling process.
\<close>

record Cmd =
  Cmd_Path :: string
  Cmd_Args :: "string list"
  Cmd_Env :: "string list option"
  Cmd_Stdin :: "reader option"
  Cmd_Stdout :: "writer option"
  Cmd_Stderr :: "writer option"

text \<open>
  \<open>exec.Command\<close> sets the path and the arguments and nothing else. (For a name
  without a path separator the library looks the name up on the search path of the
  machine; the record keeps the name as it was handed over.)
\<close>

definition exec_Command :: "string \<Rightarrow> string list \<Rightarrow> Cmd" where
  "exec_Command name arg =
     \<lparr>Cmd_Path = name, Cmd_Args = name # arg, Cmd_Env = None,
      Cmd_Stdin = None, Cmd_Stdout = None, Cmd_Stderr = None\<rparr>"

subsection \<open>Ranging over a Go map\<close>

text \<open>
  A \<open>range\<close> loop over a map visits every key once, in an order that the language
  leaves open and that may change from one loop to the next. The order the run time
  picks is an argument of the model: a list of keys. \<open>iteration_order\<close> says that it
  is a possible one for the map literal \<open>m\<close>.
\<close>

definition iteration_order :: "'k list \<Rightarrow> ('k \<times> 'v) list \<Rightarrow> bool" where
  "iteration_order ord m \<longleftrightarrow> distinct ord \<and> set ord = set (map fst m)"

definition map_range :: "'k list \<Rightarrow> ('k \<times> 'v) list \<Rightarrow> ('k \<times> 'v) list" where
  "map_range ord m =
     concat (map (\<lambda>k. case map_of m k of Some v \<Rightarrow> [(k, v)] | None \<Rightarrow> []) ord)"

subsection \<open>From a job to a command\<close>

definition boolFlags :: "DatasetOptions \<Rightarrow> (string \<times> bool) list" where
  "boolFlags o' =
     [(''--publish'', Publish o'),
      (''--strict'', Strict o'),
      (''--force'', Force o'),
      (''--keep-format'', ConvertFormatToPrev o'),
      (''--no-render'', \<not> ShouldRender o')]"

text \<open>The argument list of \<open>datasetSaveCmd\<close>, statement by statement.\<close>

definition datasetSaveArgs :: "string list \<Rightarrow> Job \<Rightarrow> string list" where
  "datasetSaveArgs ord job =
     (let args = [''save'', Name job];
          args = (if RepoPath job \<noteq> '''' then args @ [''--repo='' @ RepoPath job] else args)
      in case Options job of
           OptDataset o' \<Rightarrow>
             (let args = (if Title o' \<noteq> '''' then args @ [''--title='' @ Title o'] else args);
                  args = (if Message o' \<noteq> '''' then args @ [''--message='' @ Message o'] else args);
                  args = (if Recall o' \<noteq> '''' then args @ [''--recall='' @ Recall o'] else args);
                  args = (if BodyPath o' \<noteq> '''' then args @ [''--body='' @ BodyPath o'] else args);
                  args = (if length (FilePaths o') > 0
                          then foldl (\<lambda>a path. a @ [''--file='' @ path]) args (FilePaths o')
                          else args)
              in foldl (\<lambda>a (flag, use). if use then a @ [flag] else a) args
                   (map_range ord (boolFlags o')))
         | _ \<Rightarrow> args)"

definition datasetSaveCmd :: "string list \<Rightarrow> IOStreams \<Rightarrow> Job \<Rightarrow> Cmd" where
  "datasetSaveCmd ord streams job =
     (exec_Command ''qri'' (datasetSaveArgs ord job))
       \<lparr>Cmd_Stdin := Some (In streams), Cmd_Stdout := Some (Out streams),
        Cmd_Stderr := Some (ErrOut streams)\<rparr>"

definition shellScriptCmd :: "IOStreams \<Rightarrow> Job \<Rightarrow> Cmd" where
  "shellScriptCmd streams job =
     (exec_Command (Name job) [])
       \<lparr>Cmd_Stdin := Some (In streams), Cmd_Stdout := Some (Out streams),
        Cmd_Stderr := Some (ErrOut streams)\<rparr>"

definition JobToCmd :: "string list \<Rightarrow> IOStreams \<Rightarrow> Job \<Rightarrow> Cmd option" where
  "JobToCmd ord streams job =
     (if Type job = JTDataset then Some (datasetSaveCmd ord streams job)
      else if Type job = JTShellScript then Some (shellScriptCmd streams job)
      else None)"

subsection \<open>Running a job\<close>

text \<open>\<open>strings.Contains\<close>: some suffix of \<open>s\<close> starts with \<open>substr\<close>.\<close>

fun strings_Contains :: "string \<Rightarrow> string \<Rightarrow> bool" where
  "strings_Contains [] substr = (substr = [])"
| "strings_Contains (c # s) substr =
     (take (length substr) (c # s) = substr \<or> strings_Contains s substr)"

definition processJobError :: "Job \<Rightarrow> string option \<Rightarrow> error option \<Rightarrow> error option" where
  "processJobError job errOut err =
     (case err of
        None \<Rightarrow> None
      | Some e \<Rightarrow>
          (case errOut of
             Some text \<Rightarrow>
               (if Type job = JTDataset \<and> strings_Contains text ''no changes to save''
                then Some (Errorf ''no changes to save'')
                else Some e)
           | None \<Rightarrow> Some e))"

text \<open>Whether what is written to a writer reaches the capture buffer.\<close>

fun captures :: "writer \<Rightarrow> bool" where
  "captures (Sink n) = False"
| "captures BytesBuffer = True"
| "captures (MultiWriter ws) = (\<exists>w \<in> set ws. captures w)"

text \<open>
  The function returned by \<open>Factory\<close>. Running the command is the business of the
  operating system: \<open>run\<close> gives, for a command, the text the child writes to its standard
  error and the error of \<open>cmd.Run\<close>. The result lists the commands that were run and
  the error returned. \<open>errBuf\<close> is \<open>None\<close> for the \<open>nil\<close> pointer, and after the run
  the buffer holds the text when the standard error of the command is teed into it.
\<close>

definition Factory ::
  "(Cmd \<Rightarrow> string \<times> error option) \<Rightarrow> string list \<Rightarrow> IOStreams \<Rightarrow> Job
     \<Rightarrow> Cmd list \<times> error option" where
  "Factory run ord streams job =
     (let errBuf = (if Type job = JTDataset then Some BytesBuffer else None);
          streams = (if Type job = JTDataset
                     then NewIOStreams (In streams) (Out streams)
                            (MultiWriter [ErrOut streams, BytesBuffer])
                     else streams)
      in case JobToCmd ord streams job of
           None \<Rightarrow> ([], Some (Errorf (''unrecognized update type: '' @ Type job)))
         | Some cmd \<Rightarrow>
             (let (text, err) = run cmd;
                  written = (case Cmd_Stderr cmd of
                               Some w \<Rightarrow> if captures w then text else []
                             | None \<Rightarrow> [])
              in ([cmd], processJobError job (map_option (\<lambda>b. written) errBuf) err)))"

subsection \<open>Building jobs\<close>

definition zeroTime :: Time where
  "zeroTime = 0"

text \<open>
  The parser \<open>iso8601.ParseRepeatingInterval\<close> and the method \<open>Job.Validate\<close> of
  package cron are arguments. A dataset without a commit makes \<open>ds.Commit.Timestamp\<close>
  panic.
\<close>

definition DatasetToJob ::
  "(string \<Rightarrow> error + RepeatingInterval) \<Rightarrow> (Job \<Rightarrow> error option) \<Rightarrow>
     Dataset \<Rightarrow> string \<Rightarrow> DatasetOptions option \<Rightarrow> panic + (Job option \<times> error option)" where
  "DatasetToJob parse validate ds periodicity opts =
     (let periodicity =
            (case Meta ds of
               Some m \<Rightarrow> if periodicity = [] \<and> AccrualPeriodicity m \<noteq> []
                         then AccrualPeriodicity m else periodicity
             | None \<Rightarrow> periodicity)
      in if periodicity = []
         then Inr (None, Some (Errorf
                ''scheduling dataset updates requires a meta component with accrualPeriodicity set''))
         else case parse periodicity of
                Inl err \<Rightarrow> Inr (None, Some err)
              | Inr p \<Rightarrow>
                  (case Commit ds of
                     None \<Rightarrow> Inl NilPointerDereference
                   | Some c \<Rightarrow>
                       (let job = \<lparr>Name = Peername ds @ ''/'' @ Dataset.Name ds,
                                   Alias = [], Type = JTDataset, Periodicity = p,
                                   PrevRunStart = Timestamp c, RunNumber = 0,
                                   RunStart = zeroTime, RunStop = zeroTime, RunError = [],
                                   LogFilePath = [], Options = OptNil, RepoPath = []\<rparr>;
                            job = (case opts of
                                     Some o' \<Rightarrow> job\<lparr>Options := OptDataset o'\<rparr>
                                   | None \<Rightarrow> job)
                        in Inr (Some job, validate job))))"

definition ShellScriptToJob ::
  "(string \<Rightarrow> error + RepeatingInterval) \<Rightarrow> (Job \<Rightarrow> error option) \<Rightarrow>
     string \<Rightarrow> string \<Rightarrow> ShellScriptOptions option \<Rightarrow> Job option \<times> error option" where
  "ShellScriptToJob parse validate path periodicity opts =
     (case parse periodicity of
        Inl err \<Rightarrow> (None, Some err)
      | Inr p \<Rightarrow>
          (let job = \<lparr>Name = path, Alias = [], Type = JTShellScript, Periodicity = p,
                      PrevRunStart = zeroTime, RunNumber = 0,
                      RunStart = zeroTime, RunStop = zeroTime, RunError = [],
                      LogFilePath = [], Options = OptNil, RepoPath = []\<rparr>;
               job = (case opts of
                        Some o' \<Rightarrow> job\<lparr>Options := OptShellScript o'\<rparr>
                      | None \<Rightarrow> job)
           in (Some job, validate job)))"

subsection \<open>Starting the service\<close>

text \<open>
  What \<open>Start\<close> does to the world is a list of events, in the order of the calls.
  The answers of the world are the fields of \<open>Sys\<close>: the liveness probe of
  \<open>cron.HTTPClient\<close>, the installation of the daemon, \<open>os.MkdirAll\<close>,
  \<open>filepath.Join\<close>, \<open>config.DefaultUpdate\<close> and the scheduler loop
  \<open>svc.Start\<close>.
\<close>

datatype event =
    EvPing string
  | EvDaemonInstall string
  | EvMkdirAll string
  | EvNewFlatbufferJobStore string
  | EvNewMemJobStore
  | EvNewCron
  | EvGoServeHTTP string
  | EvCronStart

record Sys =
  Ping :: "string \<Rightarrow> error option"
  daemonInstall :: "string \<Rightarrow> error option"
  MkdirAll :: "string \<Rightarrow> error option"
  Join :: "string \<Rightarrow> string \<Rightarrow> string"
  DefaultUpdate :: Update
  svcStart :: "error option"

definition RepoDirName :: string where
  "RepoDirName = ''update''"

definition Path :: "Sys \<Rightarrow> string \<Rightarrow> event list \<times> string \<times> error option" where
  "Path sys repoPath =
     (let path = Join sys repoPath RepoDirName
      in ([EvMkdirAll path], path, MkdirAll sys path))"

definition start :: "Sys \<Rightarrow> string \<Rightarrow> Update \<Rightarrow> event list \<times> error option" where
  "start sys repoPath updateCfg =
     (case Path sys repoPath of
        (evs, path, Some err) \<Rightarrow> (evs, Some err)
      | (evs, path, None) \<Rightarrow>
          (if Update.Type updateCfg = ''fs''
           then (evs @ [EvNewFlatbufferJobStore (Join sys path ''jobs.qfb''),
                        EvNewFlatbufferJobStore (Join sys path ''logs.qfb''),
                        EvNewCron, EvGoServeHTTP (Address updateCfg), EvCronStart],
                 svcStart sys)
           else if Update.Type updateCfg = ''mem''
           then (evs @ [EvNewMemJobStore, EvNewMemJobStore,
                        EvNewCron, EvGoServeHTTP (Address updateCfg), EvCronStart],
                 svcStart sys)
           else (evs, Some (Errorf (''unknown cron type: '' @ Update.Type updateCfg)))))"

definition Start :: "Sys \<Rightarrow> string \<Rightarrow> Update option \<Rightarrow> bool \<Rightarrow> event list \<times> error option" where
  "Start sys repoPath updateCfg daemonize =
     (let updateCfg = (case updateCfg of None \<Rightarrow> DefaultUpdate sys | Some c \<Rightarrow> c);
          addr = Address updateCfg
      in case Ping sys addr of
           None \<Rightarrow> ([EvPing addr], Some (Errorf ''service already running''))
         | Some err \<Rightarrow>
             (if daemonize
              then ([EvPing addr, EvDaemonInstall repoPath], daemonInstall sys repoPath)
              else (case start sys repoPath updateCfg of
                      (evs, r) \<Rightarrow> (EvPing addr # evs, r))))"

text \<open>The events that create a store, install the daemon or enter the scheduler loop.\<close>

fun mutating :: "event \<Rightarrow> bool" where
  "mutating (EvPing a) = False"
| "mutating e = True"

section \<open>Sample values\<close>

text \<open>The zero value \<open>cron.DatasetOptions{}\<close> and jobs built on it.\<close>

definition zero_DatasetOptions :: DatasetOptions where
  "zero_DatasetOptions =
     \<lparr>Title = [], Message = [], BodyPath = [], FilePaths = [], Recall = [],
      Publish = False, Strict = False, Force = False, ConvertFormatToPrev = False,
      ShouldRender = False, Config = [], Secrets = []\<rparr>"

definition sample_interval :: RepeatingInterval where
  "sample_interval = RepeatingInterval (- 1) ''PT1M''"

definition sample_job :: "JobType \<Rightarrow> Options \<Rightarrow> Job" where
  "sample_job t opts =
     \<lparr>Name = ''me/ds'', Alias = [], Type = t, Periodicity = sample_interval,
      PrevRunStart = zeroTime, RunNumber = 0, RunStart = zeroTime, RunStop = zeroTime,
      RunError = [], LogFilePath = [], Options = opts, RepoPath = []\<rparr>"

definition full_DatasetOptions :: DatasetOptions where
  "full_DatasetOptions =
     \<lparr>Title = ''t'', Message = ''m'', BodyPath = ''body.csv'', FilePaths = [''a.json'', ''b.json''],
      Recall = ''tf'', Publish = True, Strict = True, Force = False,
      ConvertFormatToPrev = False, ShouldRender = True, Config = [], Secrets = []\<rparr>"

definition std_streams :: IOStreams where
  "std_streams = \<lparr>In = Source ''stdin'', Out = Sink ''stdout'', ErrOut = Sink ''stderr''\<rparr>"

text \<open>Two orders in which the run time may visit the keys of \<open>boolFlags\<close>.\<close>

definition literal_order :: "string list" where
  "literal_order = [''--publish'', ''--strict'', ''--force'', ''--keep-format'', ''--no-render'']"

definition reverse_order :: "string list" where
  "reverse_order = [''--no-render'', ''--keep-format'', ''--force'', ''--strict'', ''--publish'']"

text \<open>A child that complains on its standard error and exits with status 1.\<close>

definition no_changes_run :: "Cmd \<Rightarrow> string \<times> error option" where
  "no_changes_run cmd = (''error saving: no changes to save'', Some (Errorf ''exit status 1''))"

text \<open>A parser that knows one expression, and a validation that accepts every job.\<close>

definition sample_parse :: "string \<Rightarrow> error + RepeatingInterval" where
  "sample_parse s =
     (if s = ''R/PT1M'' then Inr sample_interval
      else Inl (Errorf ''invalid repeating interval''))"

definition sample_validate :: "Job \<Rightarrow> error option" where
  "sample_validate job = None"

definition sample_dataset :: "Meta option \<Rightarrow> Dataset" where
  "sample_dataset m =
     \<lparr>Peername = ''me'', Name = ''ds'', Meta = m, Commit = Some \<lparr>Timestamp = 1560000000\<rparr>\<rparr>"

text \<open>A world in which a service answers at the configured address.\<close>

definition running_sys :: Sys where
  "running_sys =
     \<lparr>Ping = (\<lambda>addr. None), daemonInstall = (\<lambda>p. None), MkdirAll = (\<lambda>p. None),
      Join = (\<lambda>a b. a @ ''/'' @ b),
      DefaultUpdate = \<lparr>Update.Type = ''fs'', Address = ''127.0.0.1:2506''\<rparr>,
      svcStart = None\<rparr>"

section \<open>Properties\<close>

subsection \<open>Auxiliary facts on loops, map iteration and substrings\<close>


lemma foldl_snoc_map: "foldl (\<lambda>a x. a @ [f x]) args xs = args @ map f xs"
  by (induction xs arbitrary: args) simp_all

lemma foldl_flags:
  "foldl (\<lambda>a (flag, use). if use then a @ [flag] else a) args ps = args @ map fst (filter snd ps)"
  by (induction ps arbitrary: args) (simp_all add: case_prod_beta)

lemma map_range_total:
  assumes "set ord \<subseteq> set (map fst m)"
  shows "map_range ord m = map (\<lambda>k. (k, the (map_of m k))) ord"
  using assms
proof (induction ord)
  case Nil
  show ?case by (simp add: map_range_def)
next
  case (Cons k ks)
  from Cons.prems have "k \<in> fst ` set m" by simp
  then obtain v where "map_of m k = Some v"
    by (metis map_of_eq_None_iff not_Some_eq)
  with Cons show ?case by (simp add: map_range_def)
qed

lemma map_of_keys:
  "distinct (map fst m) \<Longrightarrow> map (\<lambda>k. (k, the (map_of m k))) (map fst m) = m"
proof -
  assume d: "distinct (map fst m)"
  have "\<forall>p\<in>set m. (fst p, the (map_of m (fst p))) = p"
  proof
    fix p assume "p \<in> set m"
    then have "map_of m (fst p) = Some (snd p)"
      using d by (metis map_of_is_SomeI prod.collapse)
    then show "(fst p, the (map_of m (fst p))) = p" by simp
  qed
  then have "map (\<lambda>p. (fst p, the (map_of m (fst p)))) m = m"
    by (simp add: map_idI)
  then show ?thesis by (simp add: comp_def)
qed

lemma mset_map_range:
  assumes "iteration_order ord m" and "distinct (map fst m)"
  shows "mset (map_range ord m) = mset m"
proof -
  let ?g = "\<lambda>k. (k, the (map_of m k))"
  from assms have "mset ord = mset (map fst m)"
    unfolding iteration_order_def using set_eq_iff_mset_eq_distinct by blast
  then have "mset (map ?g ord) = mset (map ?g (map fst m))"
    by (metis mset_map)
  also have "\<dots> = mset m"
    using assms(2) by (simp only: map_of_keys)
  finally show ?thesis
    using assms(1) by (simp add: map_range_total iteration_order_def)
qed

lemma distinct_boolFlags: "distinct (map fst (boolFlags o'))"
  by (simp add: boolFlags_def)

lemma mset_used_flags:
  assumes "iteration_order ord (boolFlags o')"
  shows "mset (map fst (filter snd (map_range ord (boolFlags o')))) =
         mset (map fst (filter snd (boolFlags o')))"
proof -
  have "mset (map_range ord (boolFlags o')) = mset (boolFlags o')"
    using assms distinct_boolFlags by (rule mset_map_range)
  then have "mset (filter snd (map_range ord (boolFlags o'))) = mset (filter snd (boolFlags o'))"
    by (metis mset_filter)
  then show ?thesis by (metis mset_map)
qed

lemma datasetSaveArgs_OptDataset:
  assumes "Options job = OptDataset o'"
  shows "datasetSaveArgs ord job =
    [''save'', Name job]
    @ (if RepoPath job \<noteq> '''' then [''--repo='' @ RepoPath job] else [])
    @ (if Title o' \<noteq> '''' then [''--title='' @ Title o'] else [])
    @ (if Message o' \<noteq> '''' then [''--message='' @ Message o'] else [])
    @ (if Recall o' \<noteq> '''' then [''--recall='' @ Recall o'] else [])
    @ (if BodyPath o' \<noteq> '''' then [''--body='' @ BodyPath o'] else [])
    @ map (\<lambda>path. ''--file='' @ path) (FilePaths o')
    @ map fst (filter snd (map_range ord (boolFlags o')))"
  using assms by (simp add: datasetSaveArgs_def Let_def foldl_flags foldl_snoc_map)


lemma prefix_take: "take (length sub) s = sub \<longleftrightarrow> (\<exists>q. s = sub @ q)"
  by (metis append_eq_conv_conj append_take_drop_id)

lemma strings_Contains_iff: "strings_Contains s sub \<longleftrightarrow> (\<exists>p q. s = p @ sub @ q)"
proof (induction s)
  case Nil
  show ?case by auto
next
  case (Cons c s)
  have "(\<exists>p q. c # s = p @ sub @ q) \<longleftrightarrow> (\<exists>q. c # s = sub @ q) \<or> (\<exists>p q. s = p @ sub @ q)"
  proof
    assume "\<exists>p q. c # s = p @ sub @ q"
    then obtain p q where pq: "c # s = p @ sub @ q" by blast
    show "(\<exists>q. c # s = sub @ q) \<or> (\<exists>p q. s = p @ sub @ q)"
    proof (cases p)
      case Nil
      with pq show ?thesis by auto
    next
      case (Cons a p')
      with pq have "s = p' @ sub @ q" by simp
      then show ?thesis by blast
    qed
  next
    assume "(\<exists>q. c # s = sub @ q) \<or> (\<exists>p q. s = p @ sub @ q)"
    then show "\<exists>p q. c # s = p @ sub @ q"
    proof
      assume "\<exists>q. c # s = sub @ q"
      then obtain q where "c # s = [] @ sub @ q" by auto
      then show ?thesis by blast
    next
      assume "\<exists>p q. s = p @ sub @ q"
      then obtain p q where "c # s = (c # p) @ sub @ q" by auto
      then show ?thesis by blast
    qed
  qed
  with Cons show ?case
    by (simp only: strings_Contains.simps prefix_take)
qed

lemma iteration_order_boolFlags:
  "iteration_order ord (boolFlags a) = iteration_order ord (boolFlags b)"
  by (simp add: iteration_order_def boolFlags_def)

lemma JT_distinct: "JTDataset \<noteq> JTShellScript"
  by (simp add: JTDataset_def JTShellScript_def)

lemma Cmd_Args_datasetSaveCmd:
  "Cmd_Args (datasetSaveCmd ord streams job) = ''qri'' # datasetSaveArgs ord job"
  by (simp add: datasetSaveCmd_def exec_Command_def)

lemma used_flags_explicit:
  "map fst (filter snd (boolFlags o')) =
     (if Publish o' then [''--publish''] else [])
     @ (if Strict o' then [''--strict''] else [])
     @ (if Force o' then [''--force''] else [])
     @ (if ConvertFormatToPrev o' then [''--keep-format''] else [])
     @ (if ShouldRender o' then [] else [''--no-render''])"
  by (simp add: boolFlags_def)

lemma datasetSaveArgs_other:
  assumes "\<forall>o'. Options job \<noteq> OptDataset o'"
  shows "datasetSaveArgs ord job =
     ''save'' # Name job # (if RepoPath job \<noteq> [] then [''--repo='' @ RepoPath job] else [])"
  using assms by (cases "Options job") (simp_all add: datasetSaveArgs_def)

text \<open>
  C1, as the code has it. For a Dataset job that carries dataset options, the command is
  \<open>qri save <name>\<close>, then \<open>--repo=\<close> exactly when \<open>RepoPath\<close> is not empty, then
  \<open>--title=\<close>, \<open>--message=\<close>, \<open>--recall=\<close> and \<open>--body=\<close>, each exactly when its
  field is not empty, then one \<open>--file=\<close> entry for each element of \<open>FilePaths\<close>, then
  the bare flags in the order of the map iteration: \<open>--publish\<close>, \<open>--strict\<close>,
  \<open>--force\<close> and \<open>--keep-format\<close> exactly when \<open>Publish\<close>, \<open>Strict\<close>, \<open>Force\<close>
  and \<open>ConvertFormatToPrev\<close> are true, and \<open>--no-render\<close> exactly when
  \<open>ShouldRender\<close> is false. Nothing else is in the argument vector.
\<close>

theorem datasetSaveCmd_argument_vector:
  assumes "Type job = JTDataset"
    and "Options job = OptDataset o'"
    and "iteration_order ord (boolFlags o')"
  shows "\<exists>cmd flags.
           JobToCmd ord streams job = Some cmd
         \<and> Cmd_Args cmd =
             [''qri'', ''save'', Name job]
             @ (if RepoPath job \<noteq> [] then [''--repo='' @ RepoPath job] else [])
             @ (if Title o' \<noteq> [] then [''--title='' @ Title o'] else [])
             @ (if Message o' \<noteq> [] then [''--message='' @ Message o'] else [])
             @ (if Recall o' \<noteq> [] then [''--recall='' @ Recall o'] else [])
             @ (if BodyPath o' \<noteq> [] then [''--body='' @ BodyPath o'] else [])
             @ map (\<lambda>path. ''--file='' @ path) (FilePaths o')
             @ flags
         \<and> mset flags =
             mset ((if Publish o' then [''--publish''] else [])
                   @ (if Strict o' then [''--strict''] else [])
                   @ (if Force o' then [''--force''] else [])
                   @ (if ConvertFormatToPrev o' then [''--keep-format''] else [])
                   @ (if ShouldRender o' then [] else [''--no-render'']))"
proof -
  let ?flags = "map fst (filter snd (map_range ord (boolFlags o')))"
  have cmd: "JobToCmd ord streams job = Some (datasetSaveCmd ord streams job)"
    using assms(1) by (simp add: JobToCmd_def)
  have args: "Cmd_Args (datasetSaveCmd ord streams job) =
             [''qri'', ''save'', Name job]
             @ (if RepoPath job \<noteq> [] then [''--repo='' @ RepoPath job] else [])
             @ (if Title o' \<noteq> [] then [''--title='' @ Title o'] else [])
             @ (if Message o' \<noteq> [] then [''--message='' @ Message o'] else [])
             @ (if Recall o' \<noteq> [] then [''--recall='' @ Recall o'] else [])
             @ (if BodyPath o' \<noteq> [] then [''--body='' @ BodyPath o'] else [])
             @ map (\<lambda>path. ''--file='' @ path) (FilePaths o')
             @ ?flags"
    by (simp only: Cmd_Args_datasetSaveCmd datasetSaveArgs_OptDataset [OF assms(2)]) simp
  have "mset ?flags = mset (map fst (filter snd (boolFlags o')))"
    using assms(3) by (rule mset_used_flags)
  then have flags: "mset ?flags =
             mset ((if Publish o' then [''--publish''] else [])
                   @ (if Strict o' then [''--strict''] else [])
                   @ (if Force o' then [''--force''] else [])
                   @ (if ConvertFormatToPrev o' then [''--keep-format''] else [])
                   @ (if ShouldRender o' then [] else [''--no-render'']))"
    by (simp only: used_flags_explicit)
  from cmd args flags show ?thesis by blast
qed

theorem datasetSaveCmd_argument_vector_witness:
  "Type (sample_job JTDataset (OptDataset full_DatasetOptions)) = JTDataset
   \<and> Options (sample_job JTDataset (OptDataset full_DatasetOptions)) = OptDataset full_DatasetOptions
   \<and> iteration_order reverse_order (boolFlags full_DatasetOptions)
   \<and> (\<exists>cmd flags.
         JobToCmd reverse_order std_streams (sample_job JTDataset (OptDataset full_DatasetOptions))
           = Some cmd
       \<and> Cmd_Args cmd =
           [''qri'', ''save'', ''me/ds'', ''--title=t'', ''--message=m'', ''--recall=tf'',
            ''--body=body.csv'', ''--file=a.json'', ''--file=b.json''] @ flags
       \<and> mset flags = mset [''--publish'', ''--strict''])"
proof -
  let ?job = "sample_job JTDataset (OptDataset full_DatasetOptions)"
  have h1: "Type ?job = JTDataset"
    by (simp add: sample_job_def)
  have h2: "Options ?job = OptDataset full_DatasetOptions"
    by (simp add: sample_job_def)
  have h3: "iteration_order reverse_order (boolFlags full_DatasetOptions)"
    by (simp add: iteration_order_def reverse_order_def boolFlags_def) auto
  from datasetSaveCmd_argument_vector [OF h1 h2 h3, of std_streams]
  have "\<exists>cmd flags.
         JobToCmd reverse_order std_streams ?job = Some cmd
       \<and> Cmd_Args cmd =
           [''qri'', ''save'', ''me/ds'', ''--title=t'', ''--message=m'', ''--recall=tf'',
            ''--body=body.csv'', ''--file=a.json'', ''--file=b.json''] @ flags
       \<and> mset flags = mset [''--publish'', ''--strict'']"
    by (simp add: sample_job_def full_DatasetOptions_def)
  with h1 h2 h3 show ?thesis by blast
qed

text \<open>
  C1 as the claim words it fails: with all five boolean fields false, and so with
  \<open>ShouldRender\<close> false, the argument vector holds the flag \<open>--no-render\<close>.
\<close>

theorem datasetSaveCmd_false_field_counterexample:
  "Type (sample_job JTDataset (OptDataset zero_DatasetOptions)) = JTDataset
   \<and> Options (sample_job JTDataset (OptDataset zero_DatasetOptions)) = OptDataset zero_DatasetOptions
   \<and> \<not> Publish zero_DatasetOptions \<and> \<not> Strict zero_DatasetOptions
   \<and> \<not> Force zero_DatasetOptions \<and> \<not> ConvertFormatToPrev zero_DatasetOptions
   \<and> \<not> ShouldRender zero_DatasetOptions
   \<and> iteration_order literal_order (boolFlags zero_DatasetOptions)
   \<and> map_option Cmd_Args
        (JobToCmd literal_order std_streams (sample_job JTDataset (OptDataset zero_DatasetOptions)))
      = Some [''qri'', ''save'', ''me/ds'', ''--no-render'']"
  by (simp add: sample_job_def zero_DatasetOptions_def iteration_order_def literal_order_def
        boolFlags_def JobToCmd_def datasetSaveCmd_def datasetSaveArgs_def exec_Command_def
        map_range_def)

text \<open>
  C3, as the code has it. Two calls on the same job may meet two orders of the map
  iteration. Both give a command or neither does; the two commands agree in everything
  but the argument vector, and the two argument vectors are the same list followed by
  the same bare flags of \<open>boolFlags\<close>, each at most once, in an order that may differ.
\<close>

theorem JobToCmd_equal_up_to_flag_order:
  assumes "iteration_order ord1 (boolFlags o')"
    and "iteration_order ord2 (boolFlags o')"
  shows "(JobToCmd ord1 streams job = None \<and> JobToCmd ord2 streams job = None)
       \<or> (\<exists>c1 c2 pre flags1 flags2.
             JobToCmd ord1 streams job = Some c1
           \<and> JobToCmd ord2 streams job = Some c2
           \<and> c1\<lparr>Cmd_Args := []\<rparr> = c2\<lparr>Cmd_Args := []\<rparr>
           \<and> Cmd_Args c1 = pre @ flags1
           \<and> Cmd_Args c2 = pre @ flags2
           \<and> mset flags1 = mset flags2
           \<and> distinct flags1
           \<and> set flags1 \<subseteq> set (map fst (boolFlags o')))"
proof -
  consider (dataset) p where "Type job = JTDataset" "Options job = OptDataset p"
    | (plain) "Type job = JTDataset" "\<forall>p. Options job \<noteq> OptDataset p"
    | (shell) "Type job \<noteq> JTDataset" "Type job = JTShellScript"
    | (other) "Type job \<noteq> JTDataset" "Type job \<noteq> JTShellScript"
    by blast
  then show ?thesis
  proof cases
    case dataset
    let ?pre = "[''qri'', ''save'', Name job]
             @ (if RepoPath job \<noteq> [] then [''--repo='' @ RepoPath job] else [])
             @ (if Title p \<noteq> [] then [''--title='' @ Title p] else [])
             @ (if Message p \<noteq> [] then [''--message='' @ Message p] else [])
             @ (if Recall p \<noteq> [] then [''--recall='' @ Recall p] else [])
             @ (if BodyPath p \<noteq> [] then [''--body='' @ BodyPath p] else [])
             @ map (\<lambda>path. ''--file='' @ path) (FilePaths p)"
    let ?f1 = "map fst (filter snd (map_range ord1 (boolFlags p)))"
    let ?f2 = "map fst (filter snd (map_range ord2 (boolFlags p)))"
    have o1: "iteration_order ord1 (boolFlags p)"
      using assms(1) iteration_order_boolFlags by blast
    have o2: "iteration_order ord2 (boolFlags p)"
      using assms(2) iteration_order_boolFlags by blast
    have c1: "JobToCmd ord1 streams job = Some (datasetSaveCmd ord1 streams job)"
      and c2: "JobToCmd ord2 streams job = Some (datasetSaveCmd ord2 streams job)"
      using dataset(1) by (simp_all add: JobToCmd_def)
    have rest: "(datasetSaveCmd ord1 streams job)\<lparr>Cmd_Args := []\<rparr> =
                (datasetSaveCmd ord2 streams job)\<lparr>Cmd_Args := []\<rparr>"
      by (simp add: datasetSaveCmd_def exec_Command_def)
    have a1: "Cmd_Args (datasetSaveCmd ord1 streams job) = ?pre @ ?f1"
      by (simp only: Cmd_Args_datasetSaveCmd datasetSaveArgs_OptDataset [OF dataset(2)]) simp
    have a2: "Cmd_Args (datasetSaveCmd ord2 streams job) = ?pre @ ?f2"
      by (simp only: Cmd_Args_datasetSaveCmd datasetSaveArgs_OptDataset [OF dataset(2)]) simp
    have m1: "mset ?f1 = mset (map fst (filter snd (boolFlags p)))"
      using o1 by (rule mset_used_flags)
    have m2: "mset ?f2 = mset (map fst (filter snd (boolFlags p)))"
      using o2 by (rule mset_used_flags)
    from m1 m2 have m: "mset ?f1 = mset ?f2" by simp
    have "distinct (map fst (filter snd (boolFlags p)))"
      using distinct_boolFlags by (rule distinct_map_filter)
    with m1 have d: "distinct ?f1"
      by (metis mset_eq_imp_distinct_iff)
    have "set ?f1 = set (map fst (filter snd (boolFlags p)))"
      using m1 by (rule mset_eq_setD)
    also have "\<dots> \<subseteq> set (map fst (boolFlags p))"
      by auto
    also have "\<dots> = set (map fst (boolFlags o'))"
      by (simp add: boolFlags_def)
    finally have s: "set ?f1 \<subseteq> set (map fst (boolFlags o'))" .
    from c1 c2 rest a1 a2 m d s show ?thesis by blast
  next
    case plain
    have c: "JobToCmd ord1 streams job = Some (datasetSaveCmd ord1 streams job)"
      "JobToCmd ord2 streams job = Some (datasetSaveCmd ord2 streams job)"
      using plain(1) by (simp_all add: JobToCmd_def)
    have e: "datasetSaveCmd ord1 streams job = datasetSaveCmd ord2 streams job"
      by (simp add: datasetSaveCmd_def datasetSaveArgs_other [OF plain(2)])
    have "Cmd_Args (datasetSaveCmd ord2 streams job) = Cmd_Args (datasetSaveCmd ord2 streams job) @ []"
      by simp
    with c e show ?thesis
      by (metis distinct.simps(1) empty_set empty_subsetI)
  next
    case shell
    then have c: "JobToCmd ord1 streams job = Some (shellScriptCmd streams job)"
      "JobToCmd ord2 streams job = Some (shellScriptCmd streams job)"
      by (simp_all add: JobToCmd_def)
    have "Cmd_Args (shellScriptCmd streams job) = Cmd_Args (shellScriptCmd streams job) @ []"
      by simp
    with c show ?thesis
      by (metis distinct.simps(1) empty_set empty_subsetI)
  next
    case other
    then show ?thesis by (simp add: JobToCmd_def)
  qed
qed

theorem JobToCmd_equal_up_to_flag_order_witness:
  "iteration_order literal_order (boolFlags full_DatasetOptions)
   \<and> iteration_order reverse_order (boolFlags full_DatasetOptions)
   \<and> (\<exists>c1 c2 pre flags1 flags2.
         JobToCmd literal_order std_streams (sample_job JTDataset (OptDataset full_DatasetOptions))
           = Some c1
       \<and> JobToCmd reverse_order std_streams (sample_job JTDataset (OptDataset full_DatasetOptions))
           = Some c2
       \<and> c1\<lparr>Cmd_Args := []\<rparr> = c2\<lparr>Cmd_Args := []\<rparr>
       \<and> Cmd_Args c1 = pre @ flags1
       \<and> Cmd_Args c2 = pre @ flags2
       \<and> mset flags1 = mset flags2
       \<and> distinct flags1
       \<and> set flags1 \<subseteq> set literal_order)"
proof -
  have h1: "iteration_order literal_order (boolFlags full_DatasetOptions)"
    by (simp add: iteration_order_def literal_order_def boolFlags_def)
  have h2: "iteration_order reverse_order (boolFlags full_DatasetOptions)"
    by (simp add: iteration_order_def reverse_order_def boolFlags_def) auto
  have n: "JobToCmd literal_order std_streams (sample_job JTDataset (OptDataset full_DatasetOptions))
             \<noteq> None"
    by (simp add: JobToCmd_def sample_job_def)
  have k: "map fst (boolFlags full_DatasetOptions) = literal_order"
    by (simp add: boolFlags_def literal_order_def)
  from JobToCmd_equal_up_to_flag_order [OF h1 h2,
         of std_streams "sample_job JTDataset (OptDataset full_DatasetOptions)"] n k
  have "\<exists>c1 c2 pre flags1 flags2.
         JobToCmd literal_order std_streams (sample_job JTDataset (OptDataset full_DatasetOptions))
           = Some c1
       \<and> JobToCmd reverse_order std_streams (sample_job JTDataset (OptDataset full_DatasetOptions))
           = Some c2
       \<and> c1\<lparr>Cmd_Args := []\<rparr> = c2\<lparr>Cmd_Args := []\<rparr>
       \<and> Cmd_Args c1 = pre @ flags1
       \<and> Cmd_Args c2 = pre @ flags2
       \<and> mset flags1 = mset flags2
       \<and> distinct flags1
       \<and> set flags1 \<subseteq> set literal_order"
    by simp
  with h1 h2 show ?thesis by blast
qed

text \<open>
  C3 as the claim words it fails: one job, two possible orders of the map iteration, two
  argument vectors that differ in the order of \<open>--publish\<close> and \<open>--strict\<close>.
\<close>

theorem JobToCmd_order_counterexample:
  "iteration_order literal_order (boolFlags full_DatasetOptions)
   \<and> iteration_order reverse_order (boolFlags full_DatasetOptions)
   \<and> map_option Cmd_Args
        (JobToCmd literal_order std_streams (sample_job JTDataset (OptDataset full_DatasetOptions)))
      = Some [''qri'', ''save'', ''me/ds'', ''--title=t'', ''--message=m'', ''--recall=tf'',
              ''--body=body.csv'', ''--file=a.json'', ''--file=b.json'', ''--publish'', ''--strict'']
   \<and> map_option Cmd_Args
        (JobToCmd reverse_order std_streams (sample_job JTDataset (OptDataset full_DatasetOptions)))
      = Some [''qri'', ''save'', ''me/ds'', ''--title=t'', ''--message=m'', ''--recall=tf'',
              ''--body=body.csv'', ''--file=a.json'', ''--file=b.json'', ''--strict'', ''--publish'']"
proof -
  have h1: "iteration_order literal_order (boolFlags full_DatasetOptions)"
    by (simp add: iteration_order_def literal_order_def boolFlags_def)
  have h2: "iteration_order reverse_order (boolFlags full_DatasetOptions)"
    by (simp add: iteration_order_def reverse_order_def boolFlags_def) auto
  have a1: "map_option Cmd_Args
        (JobToCmd literal_order std_streams (sample_job JTDataset (OptDataset full_DatasetOptions)))
      = Some [''qri'', ''save'', ''me/ds'', ''--title=t'', ''--message=m'', ''--recall=tf'',
              ''--body=body.csv'', ''--file=a.json'', ''--file=b.json'', ''--publish'', ''--strict'']"
    by (simp add: sample_job_def full_DatasetOptions_def literal_order_def
        boolFlags_def JobToCmd_def datasetSaveCmd_def datasetSaveArgs_def exec_Command_def
        map_range_def)
  have a2: "map_option Cmd_Args
        (JobToCmd reverse_order std_streams (sample_job JTDataset (OptDataset full_DatasetOptions)))
      = Some [''qri'', ''save'', ''me/ds'', ''--title=t'', ''--message=m'', ''--recall=tf'',
              ''--body=body.csv'', ''--file=a.json'', ''--file=b.json'', ''--strict'', ''--publish'']"
    by (simp add: sample_job_def full_DatasetOptions_def reverse_order_def
        boolFlags_def JobToCmd_def datasetSaveCmd_def datasetSaveArgs_def exec_Command_def
        map_range_def)
  from h1 h2 a1 a2 show ?thesis by blast
qed

text \<open>
  C9. A Dataset job whose \<open>Options\<close> is \<open>nil\<close> or holds options of another
  kind still gets its command: \<open>qri save <name>\<close>, with \<open>--repo=\<close> when
  \<open>RepoPath\<close> is not empty, and no flag of any option, whatever the order of iteration.
\<close>

theorem datasetSaveCmd_without_dataset_options:
  assumes "Type job = JTDataset"
    and "\<forall>o'. Options job \<noteq> OptDataset o'"
  shows "\<exists>cmd. JobToCmd ord streams job = Some cmd
          \<and> Cmd_Args cmd =
              [''qri'', ''save'', Name job]
              @ (if RepoPath job \<noteq> [] then [''--repo='' @ RepoPath job] else [])"
  using assms(1) datasetSaveArgs_other [OF assms(2)]
  by (simp add: JobToCmd_def Cmd_Args_datasetSaveCmd)

theorem datasetSaveCmd_without_dataset_options_witness:
  "Type ((sample_job JTDataset (OptShellScript ShellScriptOptions))\<lparr>RepoPath := ''/repo''\<rparr>)
     = JTDataset
   \<and> (\<forall>o'. Options ((sample_job JTDataset (OptShellScript ShellScriptOptions))\<lparr>RepoPath := ''/repo''\<rparr>)
          \<noteq> OptDataset o')
   \<and> (\<exists>cmd. JobToCmd literal_order std_streams
                ((sample_job JTDataset (OptShellScript ShellScriptOptions))\<lparr>RepoPath := ''/repo''\<rparr>)
              = Some cmd
            \<and> Cmd_Args cmd = [''qri'', ''save'', ''me/ds'', ''--repo=/repo''])"
proof -
  let ?job = "(sample_job JTDataset (OptShellScript ShellScriptOptions))\<lparr>RepoPath := ''/repo''\<rparr>"
  have h1: "Type ?job = JTDataset"
    by (simp add: sample_job_def)
  have h2: "\<forall>o'. Options ?job \<noteq> OptDataset o'"
    by (simp add: sample_job_def)
  from datasetSaveCmd_without_dataset_options [OF h1 h2, of literal_order std_streams]
  have "\<exists>cmd. JobToCmd literal_order std_streams ?job = Some cmd
            \<and> Cmd_Args cmd = [''qri'', ''save'', ''me/ds'', ''--repo=/repo'']"
    by (simp add: sample_job_def)
  with h1 h2 show ?thesis by blast
qed

text \<open>
  C7. The command of a ShellScript job has the job's name as its path, no argument
  behind the program name, and the \<open>nil\<close> environment, under which the child gets the
  environment of the calling process. Its streams are those handed in.
\<close>

theorem shellScriptCmd_name_only:
  assumes "Type job = JTShellScript"
  shows "\<exists>cmd. JobToCmd ord streams job = Some cmd
          \<and> Cmd_Path cmd = Name job
          \<and> Cmd_Args cmd = [Name job]
          \<and> tl (Cmd_Args cmd) = []
          \<and> Cmd_Env cmd = None
          \<and> Cmd_Stdin cmd = Some (In streams)
          \<and> Cmd_Stdout cmd = Some (Out streams)
          \<and> Cmd_Stderr cmd = Some (ErrOut streams)"
  using assms JT_distinct
  by (simp add: JobToCmd_def shellScriptCmd_def exec_Command_def)

theorem shellScriptCmd_name_only_witness:
  "Type ((sample_job JTShellScript OptNil)\<lparr>Name := ''/bin/true''\<rparr>) = JTShellScript
   \<and> (\<exists>cmd. JobToCmd literal_order std_streams
                ((sample_job JTShellScript OptNil)\<lparr>Name := ''/bin/true''\<rparr>) = Some cmd
          \<and> Cmd_Path cmd = ''/bin/true''
          \<and> Cmd_Args cmd = [''/bin/true'']
          \<and> Cmd_Env cmd = None)"
proof -
  let ?job = "(sample_job JTShellScript OptNil)\<lparr>Name := ''/bin/true''\<rparr>"
  have h: "Type ?job = JTShellScript"
    by (simp add: sample_job_def)
  from shellScriptCmd_name_only [OF h, of literal_order std_streams]
  have "\<exists>cmd. JobToCmd literal_order std_streams ?job = Some cmd
          \<and> Cmd_Path cmd = ''/bin/true''
          \<and> Cmd_Args cmd = [''/bin/true'']
          \<and> Cmd_Env cmd = None"
    by (auto simp: sample_job_def)
  with h show ?thesis by blast
qed

text \<open>
  C6. For a job whose type is neither Dataset nor ShellScript, \<open>JobToCmd\<close> gives no
  command, and the run function of \<open>Factory\<close> returns the error
  \<open>unrecognized update type\<close> and runs no command.
\<close>

theorem unrecognized_type_no_command:
  assumes "Type job \<noteq> JTDataset"
    and "Type job \<noteq> JTShellScript"
  shows "JobToCmd ord streams job = None
       \<and> Factory run ord streams job =
           ([], Some (Errorf (''unrecognized update type: '' @ Type job)))"
  using assms by (simp add: Factory_def JobToCmd_def)

theorem unrecognized_type_no_command_witness:
  "Type (sample_job ''unknown'' OptNil) \<noteq> JTDataset
   \<and> Type (sample_job ''unknown'' OptNil) \<noteq> JTShellScript
   \<and> JobToCmd literal_order std_streams (sample_job ''unknown'' OptNil) = None
   \<and> Factory no_changes_run literal_order std_streams (sample_job ''unknown'' OptNil) =
       ([], Some (Errorf ''unrecognized update type: unknown''))"
proof -
  let ?job = "sample_job ''unknown'' OptNil"
  have h1: "Type ?job \<noteq> JTDataset"
    by (simp add: sample_job_def JTDataset_def)
  have h2: "Type ?job \<noteq> JTShellScript"
    by (simp add: sample_job_def JTShellScript_def)
  from unrecognized_type_no_command [OF h1 h2, of literal_order std_streams no_changes_run]
  have "JobToCmd literal_order std_streams ?job = None
      \<and> Factory no_changes_run literal_order std_streams ?job =
          ([], Some (Errorf ''unrecognized update type: unknown''))"
    by (simp add: sample_job_def)
  with h1 h2 show ?thesis by blast
qed

text \<open>
  C2. For a Dataset job the runner tees the standard error of the command into the
  capture buffer; when the command fails and the captured text contains
  \<open>no changes to save\<close>, the run returns the error \<open>no changes to save\<close> in place
  of the error of the command, and every other error of the command is returned as it
  is. For a job of another type the command writes to the caller's stream alone, there is
  no buffer, and the outcome of the command is returned as it is, whatever the child
  wrote.
\<close>

theorem Factory_classifies_dataset_errors:
  "(Type job = JTDataset \<longrightarrow>
      (\<exists>cmd. JobToCmd ord (NewIOStreams (In streams) (Out streams)
                             (MultiWriter [ErrOut streams, BytesBuffer])) job = Some cmd
        \<and> Cmd_Stderr cmd = Some (MultiWriter [ErrOut streams, BytesBuffer])
        \<and> Factory run ord streams job =
            ([cmd],
             case snd (run cmd) of
               None \<Rightarrow> None
             | Some e \<Rightarrow>
                 if strings_Contains (fst (run cmd)) ''no changes to save''
                 then Some (Errorf ''no changes to save'')
                 else Some e)))
 \<and> (Type job \<noteq> JTDataset \<longrightarrow>
      (\<forall>cmd. JobToCmd ord streams job = Some cmd \<longrightarrow>
         Cmd_Stderr cmd = Some (ErrOut streams)
       \<and> Factory run ord streams job = ([cmd], snd (run cmd))))"
proof (intro conjI impI allI)
  assume t: "Type job = JTDataset"
  let ?teed = "NewIOStreams (In streams) (Out streams) (MultiWriter [ErrOut streams, BytesBuffer])"
  let ?cmd = "datasetSaveCmd ord ?teed job"
  have c: "JobToCmd ord ?teed job = Some ?cmd"
    using t by (simp add: JobToCmd_def)
  have s: "Cmd_Stderr ?cmd = Some (MultiWriter [ErrOut streams, BytesBuffer])"
    by (simp add: datasetSaveCmd_def NewIOStreams_def)
  have "Factory run ord streams job =
            ([?cmd],
             case snd (run ?cmd) of
               None \<Rightarrow> None
             | Some e \<Rightarrow>
                 if strings_Contains (fst (run ?cmd)) ''no changes to save''
                 then Some (Errorf ''no changes to save'')
                 else Some e)"
    using t c s
    by (simp add: Factory_def processJobError_def case_prod_beta split: option.split)
  with c s show "\<exists>cmd. JobToCmd ord ?teed job = Some cmd
        \<and> Cmd_Stderr cmd = Some (MultiWriter [ErrOut streams, BytesBuffer])
        \<and> Factory run ord streams job =
            ([cmd],
             case snd (run cmd) of
               None \<Rightarrow> None
             | Some e \<Rightarrow>
                 if strings_Contains (fst (run cmd)) ''no changes to save''
                 then Some (Errorf ''no changes to save'')
                 else Some e)"
    by blast
next
  fix cmd
  assume t: "Type job \<noteq> JTDataset" and c: "JobToCmd ord streams job = Some cmd"
  then have "cmd = shellScriptCmd streams job"
    by (simp add: JobToCmd_def split: if_splits)
  then show "Cmd_Stderr cmd = Some (ErrOut streams)"
    by (simp add: shellScriptCmd_def)
next
  fix cmd
  assume t: "Type job \<noteq> JTDataset" and c: "JobToCmd ord streams job = Some cmd"
  then show "Factory run ord streams job = ([cmd], snd (run cmd))"
    by (simp add: Factory_def processJobError_def case_prod_beta split: option.split)
qed

theorem Factory_classifies_dataset_errors_witness:
  "Type (sample_job JTDataset OptNil) = JTDataset
   \<and> snd (Factory no_changes_run literal_order std_streams (sample_job JTDataset OptNil))
       = Some (Errorf ''no changes to save'')
   \<and> Type (sample_job JTShellScript OptNil) \<noteq> JTDataset
   \<and> JobToCmd literal_order std_streams (sample_job JTShellScript OptNil)
       = Some (shellScriptCmd std_streams (sample_job JTShellScript OptNil))
   \<and> Cmd_Stderr (shellScriptCmd std_streams (sample_job JTShellScript OptNil))
       = Some (Sink ''stderr'')
   \<and> snd (Factory no_changes_run literal_order std_streams (sample_job JTShellScript OptNil))
       = Some (Errorf ''exit status 1'')"
proof -
  have h1: "Type (sample_job JTDataset OptNil) = JTDataset"
    by (simp add: sample_job_def)
  have h2: "Type (sample_job JTShellScript OptNil) \<noteq> JTDataset"
    using JT_distinct by (simp add: sample_job_def)
  have h3: "JobToCmd literal_order std_streams (sample_job JTShellScript OptNil)
       = Some (shellScriptCmd std_streams (sample_job JTShellScript OptNil))"
    using JT_distinct by (simp add: JobToCmd_def sample_job_def)
  have p: "strings_Contains ''error saving: no changes to save'' ''no changes to save''"
    by code_simp
  from Factory_classifies_dataset_errors
         [of "sample_job JTDataset OptNil" literal_order std_streams no_changes_run] h1 p
  have d: "snd (Factory no_changes_run literal_order std_streams (sample_job JTDataset OptNil))
       = Some (Errorf ''no changes to save'')"
    by (auto simp: no_changes_run_def)
  from Factory_classifies_dataset_errors
         [of "sample_job JTShellScript OptNil" literal_order std_streams no_changes_run] h2 h3
  have s: "Cmd_Stderr (shellScriptCmd std_streams (sample_job JTShellScript OptNil))
       = Some (Sink ''stderr'')
   \<and> snd (Factory no_changes_run literal_order std_streams (sample_job JTShellScript OptNil))
       = Some (Errorf ''exit status 1'')"
    by (auto simp: no_changes_run_def std_streams_def)
  from h1 d h2 h3 s show ?thesis by blast
qed

text \<open>
  C4. \<open>DatasetToJob\<close> returns an error and no job when the periodicity argument is
  empty and the dataset has no meta component or an empty accrual periodicity, and when
  the expression it settles on (the argument, or the accrual periodicity behind an empty
  argument) does not parse; \<open>ShellScriptToJob\<close> returns an error and no job when its
  periodicity does not parse. Neither function hands out a job that a store could accept.
\<close>

theorem job_construction_rejects_bad_periodicity:
  "((case Meta ds of None \<Rightarrow> True | Some m \<Rightarrow> AccrualPeriodicity m = []) \<longrightarrow>
      DatasetToJob parse validate ds [] dopts =
        Inr (None, Some (Errorf
          ''scheduling dataset updates requires a meta component with accrualPeriodicity set'')))
 \<and> (periodicity \<noteq> [] \<and> parse periodicity = Inl err \<longrightarrow>
      DatasetToJob parse validate ds periodicity dopts = Inr (None, Some err))
 \<and> (Meta ds = Some m \<and> AccrualPeriodicity m \<noteq> [] \<and> parse (AccrualPeriodicity m) = Inl err \<longrightarrow>
      DatasetToJob parse validate ds [] dopts = Inr (None, Some err))
 \<and> (parse periodicity = Inl err \<longrightarrow>
      ShellScriptToJob parse validate path periodicity sopts = (None, Some err))"
  by (simp add: DatasetToJob_def ShellScriptToJob_def split: option.split)

theorem job_construction_rejects_bad_periodicity_witness:
  "(case Meta (sample_dataset None) of None \<Rightarrow> True | Some m \<Rightarrow> AccrualPeriodicity m = [])
   \<and> DatasetToJob sample_parse sample_validate (sample_dataset None) [] None =
        Inr (None, Some (Errorf
          ''scheduling dataset updates requires a meta component with accrualPeriodicity set''))
   \<and> ''every minute'' \<noteq> [] \<and> sample_parse ''every minute'' = Inl (Errorf ''invalid repeating interval'')
   \<and> DatasetToJob sample_parse sample_validate (sample_dataset None) ''every minute'' None =
        Inr (None, Some (Errorf ''invalid repeating interval''))
   \<and> Meta (sample_dataset (Some \<lparr>AccrualPeriodicity = ''weekly''\<rparr>))
        = Some \<lparr>AccrualPeriodicity = ''weekly''\<rparr>
   \<and> AccrualPeriodicity \<lparr>AccrualPeriodicity = ''weekly''\<rparr> \<noteq> []
   \<and> sample_parse (AccrualPeriodicity \<lparr>AccrualPeriodicity = ''weekly''\<rparr>)
        = Inl (Errorf ''invalid repeating interval'')
   \<and> DatasetToJob sample_parse sample_validate
        (sample_dataset (Some \<lparr>AccrualPeriodicity = ''weekly''\<rparr>)) [] None =
        Inr (None, Some (Errorf ''invalid repeating interval''))
   \<and> ShellScriptToJob sample_parse sample_validate ''/bin/true'' ''every minute'' None =
        (None, Some (Errorf ''invalid repeating interval''))"
proof -
  have h1: "case Meta (sample_dataset None) of None \<Rightarrow> True | Some m \<Rightarrow> AccrualPeriodicity m = []"
    by (simp add: sample_dataset_def)
  have h2: "''every minute'' \<noteq> [] \<and> sample_parse ''every minute'' = Inl (Errorf ''invalid repeating interval'')"
    by (simp add: sample_parse_def)
  have h3: "Meta (sample_dataset (Some \<lparr>AccrualPeriodicity = ''weekly''\<rparr>))
        = Some \<lparr>AccrualPeriodicity = ''weekly''\<rparr>
   \<and> AccrualPeriodicity \<lparr>AccrualPeriodicity = ''weekly''\<rparr> \<noteq> []
   \<and> sample_parse (AccrualPeriodicity \<lparr>AccrualPeriodicity = ''weekly''\<rparr>)
        = Inl (Errorf ''invalid repeating interval'')"
    by (simp add: sample_dataset_def sample_parse_def)
  note a = job_construction_rejects_bad_periodicity
             [of "sample_dataset None" sample_parse sample_validate None
                 "''every minute''" "Errorf ''invalid repeating interval''"
                 "\<lparr>AccrualPeriodicity = ''weekly''\<rparr>" "''/bin/true''" None]
  note b = job_construction_rejects_bad_periodicity
             [of "sample_dataset (Some \<lparr>AccrualPeriodicity = ''weekly''\<rparr>)"
                 sample_parse sample_validate None
                 "''every minute''" "Errorf ''invalid repeating interval''"
                 "\<lparr>AccrualPeriodicity = ''weekly''\<rparr>" "''/bin/true''" None]
  from a h1 have c1: "DatasetToJob sample_parse sample_validate (sample_dataset None) [] None =
        Inr (None, Some (Errorf
          ''scheduling dataset updates requires a meta component with accrualPeriodicity set''))"
    by blast
  from a h2 have c2: "DatasetToJob sample_parse sample_validate (sample_dataset None) ''every minute'' None =
        Inr (None, Some (Errorf ''invalid repeating interval''))"
    by blast
  from a h2 have c4: "ShellScriptToJob sample_parse sample_validate ''/bin/true'' ''every minute'' None =
        (None, Some (Errorf ''invalid repeating interval''))"
    by blast
  from b h3 have c3: "DatasetToJob sample_parse sample_validate
        (sample_dataset (Some \<lparr>AccrualPeriodicity = ''weekly''\<rparr>)) [] None =
        Inr (None, Some (Errorf ''invalid repeating interval''))"
    by blast
  from h1 h2 h3 c1 c2 c3 c4 show ?thesis by blast
qed

text \<open>
  C5. When the liveness probe at the configured address (that of the default
  configuration when none is given) answers, \<open>Start\<close> returns the error
  \<open>service already running\<close> and the probe is all it did: no directory or store was
  created, no daemon installed, no scheduler started.
\<close>

theorem Start_refuses_second_instance:
  assumes "Ping sys (Address (case updateCfg of None \<Rightarrow> DefaultUpdate sys | Some c \<Rightarrow> c)) = None"
  shows "Start sys repoPath updateCfg daemonize =
           ([EvPing (Address (case updateCfg of None \<Rightarrow> DefaultUpdate sys | Some c \<Rightarrow> c))],
            Some (Errorf ''service already running''))
       \<and> filter mutating (fst (Start sys repoPath updateCfg daemonize)) = []"
  using assms by (simp add: Start_def Let_def)

theorem Start_refuses_second_instance_witness:
  "Ping running_sys (Address (case None of None \<Rightarrow> DefaultUpdate running_sys | Some c \<Rightarrow> c)) = None
   \<and> Start running_sys ''/home/me/.qri'' None False =
       ([EvPing ''127.0.0.1:2506''], Some (Errorf ''service already running''))
   \<and> filter mutating (fst (Start running_sys ''/home/me/.qri'' None False)) = []"
proof -
  have h: "Ping running_sys (Address (case None of None \<Rightarrow> DefaultUpdate running_sys | Some c \<Rightarrow> c)) = None"
    by (simp add: running_sys_def)
  from Start_refuses_second_instance [OF h, of "''/home/me/.qri''" False]
  have "Start running_sys ''/home/me/.qri'' None False =
       ([EvPing ''127.0.0.1:2506''], Some (Errorf ''service already running''))
   \<and> filter mutating (fst (Start running_sys ''/home/me/.qri'' None False)) = []"
    by (simp add: running_sys_def)
  with h show ?thesis by blast
qed

text \<open>
  C10. With an empty periodicity argument, a dataset whose meta component has an accrual
  periodicity that parses, and a commit, \<open>DatasetToJob\<close> does what it does when that
  accrual periodicity is the argument: it builds a Dataset job with the parsed rule,
  with \<open>PrevRunStart\<close> the timestamp of the commit and with the name
  \<open><Peername>/<Name>\<close>, and returns it with the verdict of its validation. And
  every job that \<open>DatasetToJob\<close> constructs from an empty argument is of this kind: its
  rule is the parsed accrual periodicity of the dataset, its \<open>PrevRunStart\<close> the
  timestamp of the commit, its name \<open><Peername>/<Name>\<close>.
\<close>

theorem DatasetToJob_falls_back_to_accrual_periodicity:
  "(Meta ds = Some m \<and> AccrualPeriodicity m \<noteq> [] \<and> parse (AccrualPeriodicity m) = Inr p
      \<and> Commit ds = Some c \<longrightarrow>
      (\<exists>job. DatasetToJob parse validate ds [] opts = Inr (Some job, validate job)
          \<and> DatasetToJob parse validate ds [] opts =
              DatasetToJob parse validate ds (AccrualPeriodicity m) opts
          \<and> Periodicity job = p
          \<and> PrevRunStart job = Timestamp c
          \<and> Name job = Peername ds @ ''/'' @ Dataset.Name ds
          \<and> Type job = JTDataset
          \<and> Options job = (case opts of None \<Rightarrow> OptNil | Some o' \<Rightarrow> OptDataset o')))
 \<and> (DatasetToJob parse validate ds [] opts = Inr (Some job', e) \<longrightarrow>
      (\<exists>m' c'. Meta ds = Some m' \<and> AccrualPeriodicity m' \<noteq> [] \<and> Commit ds = Some c'
          \<and> parse (AccrualPeriodicity m') = Inr (Periodicity job')
          \<and> PrevRunStart job' = Timestamp c'
          \<and> Name job' = Peername ds @ ''/'' @ Dataset.Name ds
          \<and> e = validate job'))"
proof (intro conjI impI)
  assume "Meta ds = Some m \<and> AccrualPeriodicity m \<noteq> [] \<and> parse (AccrualPeriodicity m) = Inr p
      \<and> Commit ds = Some c"
  then show "\<exists>job. DatasetToJob parse validate ds [] opts = Inr (Some job, validate job)
          \<and> DatasetToJob parse validate ds [] opts =
              DatasetToJob parse validate ds (AccrualPeriodicity m) opts
          \<and> Periodicity job = p
          \<and> PrevRunStart job = Timestamp c
          \<and> Name job = Peername ds @ ''/'' @ Dataset.Name ds
          \<and> Type job = JTDataset
          \<and> Options job = (case opts of None \<Rightarrow> OptNil | Some o' \<Rightarrow> OptDataset o')"
    by (cases opts) (simp_all add: DatasetToJob_def Let_def)
next
  assume r: "DatasetToJob parse validate ds [] opts = Inr (Some job', e)"
  then obtain m' where m: "Meta ds = Some m'" "AccrualPeriodicity m' \<noteq> []"
    by (cases "Meta ds") (auto simp: DatasetToJob_def split: if_splits)
  with r obtain p' where p: "parse (AccrualPeriodicity m') = Inr p'"
    by (cases "parse (AccrualPeriodicity m')") (auto simp: DatasetToJob_def)
  with r m obtain c' where c: "Commit ds = Some c'"
    by (cases "Commit ds") (auto simp: DatasetToJob_def)
  from r m p c have "Periodicity job' = p' \<and> PrevRunStart job' = Timestamp c'
          \<and> Name job' = Peername ds @ ''/'' @ Dataset.Name ds \<and> e = validate job'"
    by (cases opts) (auto simp: DatasetToJob_def Let_def)
  with m p c show "\<exists>m' c'. Meta ds = Some m' \<and> AccrualPeriodicity m' \<noteq> [] \<and> Commit ds = Some c'
          \<and> parse (AccrualPeriodicity m') = Inr (Periodicity job')
          \<and> PrevRunStart job' = Timestamp c'
          \<and> Name job' = Peername ds @ ''/'' @ Dataset.Name ds
          \<and> e = validate job'"
    by auto
qed

theorem DatasetToJob_falls_back_to_accrual_periodicity_witness:
  "Meta (sample_dataset (Some \<lparr>AccrualPeriodicity = ''R/PT1M''\<rparr>))
     = Some \<lparr>AccrualPeriodicity = ''R/PT1M''\<rparr>
   \<and> AccrualPeriodicity \<lparr>AccrualPeriodicity = ''R/PT1M''\<rparr> \<noteq> []
   \<and> sample_parse (AccrualPeriodicity \<lparr>AccrualPeriodicity = ''R/PT1M''\<rparr>) = Inr sample_interval
   \<and> Commit (sample_dataset (Some \<lparr>AccrualPeriodicity = ''R/PT1M''\<rparr>))
       = Some \<lparr>Timestamp = 1560000000\<rparr>
   \<and> (\<exists>job. DatasetToJob sample_parse sample_validate
               (sample_dataset (Some \<lparr>AccrualPeriodicity = ''R/PT1M''\<rparr>)) [] None
             = Inr (Some job, None)
           \<and> Periodicity job = sample_interval
           \<and> PrevRunStart job = 1560000000
           \<and> Name job = ''me/ds''
           \<and> Type job = JTDataset
           \<and> sample_parse ''R/PT1M'' = Inr (Periodicity job))"
proof -
  let ?m = "\<lparr>AccrualPeriodicity = ''R/PT1M''\<rparr>"
  let ?ds = "sample_dataset (Some ?m)"
  have h: "Meta ?ds = Some ?m \<and> AccrualPeriodicity ?m \<noteq> []
             \<and> sample_parse (AccrualPeriodicity ?m) = Inr sample_interval
             \<and> Commit ?ds = Some \<lparr>Timestamp = 1560000000\<rparr>"
    by (simp add: sample_dataset_def sample_parse_def)
  note t = DatasetToJob_falls_back_to_accrual_periodicity
             [where ds = ?ds and parse = sample_parse and validate = sample_validate
                and opts = None]
  from h t [where m = ?m and p = sample_interval and c = "\<lparr>Timestamp = 1560000000\<rparr>"]
  obtain job where j: "DatasetToJob sample_parse sample_validate ?ds [] None = Inr (Some job, None)"
      "Periodicity job = sample_interval" "PrevRunStart job = 1560000000"
      "Name job = ''me/ds''" "Type job = JTDataset"
    by (auto simp: sample_validate_def sample_dataset_def)
  from j(1) t [where job' = job and e = None]
  have "sample_parse ''R/PT1M'' = Inr (Periodicity job)"
    by (auto simp: sample_dataset_def)
  with h j show ?thesis by blast
qed

end
